theory Spec2Isabelle
  imports Main "HOL-Library.Sublist"
begin

section \<open>Values, objects and the store\<close>

text \<open>
  The repository defines two classes, \<open>Option<T>\<close> and \<open>Result<T, E>\<close>. Their instances
  are JavaScript objects: they have an identity, \<open>Option\<close> instances are mutated in place by
  five methods, and several methods return the receiver or an argument itself rather than
  a copy. The embedding therefore keeps an explicit store. A payload is a JavaScript value;
  a payload that is an object is a reference into the store, and the constructor of the
  reference records the class of the object, which is what \<open>instanceof\<close> tests.

  A \<open>JNum\<close> is a safe integer, a whole number between \<open>-(2^53 - 1)\<close> and \<open>2^53 - 1\<close>:
  these are numbers of JavaScript exactly, and they print in plain decimal. An array
  literal (built by \<open>zip\<close> only, and never written to by this code) is a value. Payloads
  of other kinds (plain objects, functions, symbols, other numbers) are left out.

  The embedding follows the two classes of the complete source text. The older file
  \<open>src/option/Option.ts\<close> holds an earlier \<open>Option\<close> whose implemented methods have the
  same bodies.
\<close>

typedef safe_int = "{i::int. - 9007199254740991 \<le> i \<and> i \<le> 9007199254740991}"
  by (rule exI [of _ 0]) simp

datatype jsval =
    JUndefined
  | JNull
  | JBool bool
  | JNum safe_int
  | JStr string
  | JArray "jsval list"
  | OptionRef nat
  | ResultRef nat
  | GeneratorRef nat

text \<open>The number literal \<open>i\<close>, for \<open>i\<close> in the safe range.\<close>

abbreviation js_int :: "int \<Rightarrow> jsval" where
  "js_int i \<equiv> JNum (Abs_safe_int i)"

text \<open>\<open>enum OptionType { None, Some }\<close> and \<open>enum ResultType { Ok, Err }\<close>.\<close>

datatype OptionType = OptionType_None | OptionType_Some

datatype ResultType = ResultType_Ok | ResultType_Err

text \<open>
  \<open>type OptionInit<T> = { type: OptionType.None } | { type: OptionType.Some; value: T }\<close>
  and \<open>type ResultInit<T, E> = { type: ResultType.Err; error: E } | { type: ResultType.Ok; value: T }\<close>.
  Reading a field that the variant does not have yields \<open>undefined\<close>, as it does in
  JavaScript.
\<close>

datatype OptionInternal = NoneInternal | SomeInternal jsval

datatype ResultInternal = OkInternal jsval | ErrInternal jsval

fun option_type :: "OptionInternal \<Rightarrow> OptionType" where
  "option_type NoneInternal = OptionType_None"
| "option_type (SomeInternal v) = OptionType_Some"

fun option_value :: "OptionInternal \<Rightarrow> jsval" where
  "option_value NoneInternal = JUndefined"
| "option_value (SomeInternal v) = v"

fun result_type :: "ResultInternal \<Rightarrow> ResultType" where
  "result_type (OkInternal v) = ResultType_Ok"
| "result_type (ErrInternal e) = ResultType_Err"

fun result_value :: "ResultInternal \<Rightarrow> jsval" where
  "result_value (OkInternal v) = v"
| "result_value (ErrInternal e) = JUndefined"

fun result_error :: "ResultInternal \<Rightarrow> jsval" where
  "result_error (OkInternal v) = JUndefined"
| "result_error (ErrInternal e) = e"

text \<open>
  A generator object made by \<open>intoIter\<close>: the container it closes over and where its body
  stands (not started, suspended at the \<open>yield\<close>, or finished).
\<close>

datatype GeneratorState = NotStarted | AtYield | Finished

datatype GeneratorInternal = OptionIter nat GeneratorState | ResultIter nat GeneratorState

text \<open>
  The store: for each class the objects allocated so far, by address. The addresses below
  the counter are the allocated ones; \<open>new\<close> takes the address at the counter.
\<close>

record heap =
  options :: "nat \<Rightarrow> OptionInternal"
  option_count :: nat
  results :: "nat \<Rightarrow> ResultInternal"
  result_count :: nat
  generators :: "nat \<Rightarrow> GeneratorInternal"
  generator_count :: nat

definition empty_heap :: heap where
  "empty_heap =
     \<lparr> options = (\<lambda>a. NoneInternal), option_count = 0,
       results = (\<lambda>a. OkInternal JUndefined), result_count = 0,
       generators = (\<lambda>a. OptionIter 0 Finished), generator_count = 0 \<rparr>"

text \<open>Every \<open>throw\<close> of the source is \<open>throw new Error(message)\<close>.\<close>

datatype error = Error string

fun error_message :: "error \<Rightarrow> string" where
  "error_message (Error m) = m"

text \<open>
  A computation runs on a store and either returns a value or throws, and leaves a store
  behind in both cases. Callbacks are computations too: they may allocate, mutate and
  throw.
\<close>

type_synonym 'a comp = "heap \<Rightarrow> (error + 'a) \<times> heap"

definition ret :: "'a \<Rightarrow> 'a comp" where
  "ret x h = (Inr x, h)"

definition throw :: "error \<Rightarrow> 'a comp" where
  "throw e h = (Inl e, h)"

definition bind_comp :: "'a comp \<Rightarrow> ('a \<Rightarrow> 'b comp) \<Rightarrow> 'b comp" where
  "bind_comp m f h = (case m h of (Inl e, h') \<Rightarrow> (Inl e, h') | (Inr x, h') \<Rightarrow> f x h')"

definition returns :: "(error + 'a) \<times> heap \<Rightarrow> 'a \<Rightarrow> bool" where
  "returns r x = (fst r = Inr x)"

definition throws :: "(error + 'a) \<times> heap \<Rightarrow> bool" where
  "throws r = (case fst r of Inl e \<Rightarrow> True | Inr x \<Rightarrow> False)"

definition thrown_message :: "(error + 'a) \<times> heap \<Rightarrow> string" where
  "thrown_message r = (case fst r of Inl e \<Rightarrow> error_message e | Inr x \<Rightarrow> [])"

subsection \<open>Template literals\<close>

text \<open>
  \<open>`${x}`\<close> applies JavaScript's \<open>ToString\<close> to \<open>x\<close>. Neither class overrides
  \<open>toString\<close>, so an instance prints as \<open>[object Object]\<close>; an array joins its elements
  with commas, \<open>null\<close> and \<open>undefined\<close> elements printing as nothing; a safe integer
  prints as its decimal digits, with a minus sign when negative.
\<close>

fun nat_to_string :: "nat \<Rightarrow> string" where
  "nat_to_string n =
     (if n < 10 then [''0123456789'' ! n]
      else nat_to_string (n div 10) @ [''0123456789'' ! (n mod 10)])"

declare nat_to_string.simps [simp del]

definition int_to_string :: "int \<Rightarrow> string" where
  "int_to_string i = (if i < 0 then ''-'' @ nat_to_string (nat (- i)) else nat_to_string (nat i))"

fun js_join :: "string list \<Rightarrow> string" where
  "js_join [] = []"
| "js_join [s] = s"
| "js_join (s # t # ss) = s @ '','' @ js_join (t # ss)"

fun js_to_string :: "jsval \<Rightarrow> string" where
  "js_to_string JUndefined = ''undefined''"
| "js_to_string JNull = ''null''"
| "js_to_string (JBool b) = (if b then ''true'' else ''false'')"
| "js_to_string (JNum i) = int_to_string (Rep_safe_int i)"
| "js_to_string (JStr s) = s"
| "js_to_string (JArray xs) =
     js_join (map (\<lambda>x. if x = JUndefined \<or> x = JNull then [] else js_to_string x) xs)"
| "js_to_string (OptionRef a) = ''[object Object]''"
| "js_to_string (ResultRef a) = ''[object Object]''"
| "js_to_string (GeneratorRef a) = ''[object Generator]''"

section \<open>Constructors\<close>

text \<open>
  \<open>private constructor(init) { this.internal = { ...init }; }\<close>: the new object gets a
  record of its own, a copy of \<open>init\<close>, so no two objects ever share their \<open>internal\<close>.
\<close>

definition new_Option :: "OptionInternal \<Rightarrow> nat comp" where
  "new_Option init h =
     (Inr (option_count h),
      h\<lparr> options := (options h)(option_count h := init),
         option_count := Suc (option_count h) \<rparr>)"

definition new_Result :: "ResultInternal \<Rightarrow> nat comp" where
  "new_Result init h =
     (Inr (result_count h),
      h\<lparr> results := (results h)(result_count h := init),
         result_count := Suc (result_count h) \<rparr>)"

definition new_Generator :: "GeneratorInternal \<Rightarrow> nat comp" where
  "new_Generator init h =
     (Inr (generator_count h),
      h\<lparr> generators := (generators h)(generator_count h := init),
         generator_count := Suc (generator_count h) \<rparr>)"

definition Option_None :: "nat comp" where
  "Option_None = new_Option NoneInternal"

definition Option_Some :: "jsval \<Rightarrow> nat comp" where
  "Option_Some v = new_Option (SomeInternal v)"

definition Result_Ok :: "jsval \<Rightarrow> nat comp" where
  "Result_Ok v = new_Result (OkInternal v)"

definition Result_Err :: "jsval \<Rightarrow> nat comp" where
  "Result_Err e = new_Result (ErrInternal e)"

section \<open>Reading and writing \<open>this.internal\<close>\<close>

definition get_option :: "nat \<Rightarrow> OptionInternal comp" where
  "get_option this h = (Inr (options h this), h)"

definition set_option :: "nat \<Rightarrow> OptionInternal \<Rightarrow> unit comp" where
  "set_option this internal h = (Inr (), h\<lparr> options := (options h)(this := internal) \<rparr>)"

definition get_result :: "nat \<Rightarrow> ResultInternal comp" where
  "get_result this h = (Inr (results h this), h)"

definition get_generator :: "nat \<Rightarrow> GeneratorInternal comp" where
  "get_generator this h = (Inr (generators h this), h)"

definition set_generator :: "nat \<Rightarrow> GeneratorInternal \<Rightarrow> unit comp" where
  "set_generator this internal h =
     (Inr (), h\<lparr> generators := (generators h)(this := internal) \<rparr>)"

section \<open>Class \<open>Option\<close>: querying the variant and extracting the value\<close>

definition Option_isNone :: "nat \<Rightarrow> bool comp" where
  "Option_isNone this =
     bind_comp (get_option this) (\<lambda>internal. ret (option_type internal = OptionType_None))"

definition Option_isSome :: "nat \<Rightarrow> bool comp" where
  "Option_isSome this =
     bind_comp (get_option this) (\<lambda>internal. ret (option_type internal = OptionType_Some))"

definition Option_expect :: "nat \<Rightarrow> string \<Rightarrow> jsval comp" where
  "Option_expect this message =
     bind_comp (get_option this) (\<lambda>internal.
       if option_type internal = OptionType_None then throw (Error message)
       else ret (option_value internal))"

definition Option_unwrap :: "nat \<Rightarrow> jsval comp" where
  "Option_unwrap this =
     bind_comp (get_option this) (\<lambda>internal.
       if option_type internal = OptionType_None
       then throw (Error ''Called `Option.unwrap()` on a `None` value.'')
       else ret (option_value internal))"

definition Option_unwrapOr :: "nat \<Rightarrow> jsval \<Rightarrow> jsval comp" where
  "Option_unwrapOr this defaultValue =
     bind_comp (get_option this) (\<lambda>internal.
       ret (if option_type internal = OptionType_None then defaultValue
            else option_value internal))"

definition Option_unwrapOrElse :: "nat \<Rightarrow> jsval comp \<Rightarrow> jsval comp" where
  "Option_unwrapOrElse this defaultValueFunc =
     bind_comp (get_option this) (\<lambda>internal.
       if option_type internal = OptionType_None then defaultValueFunc
       else ret (option_value internal))"

definition Option_unwrapOrDefault :: "nat \<Rightarrow> jsval comp" where
  "Option_unwrapOrDefault this =
     throw (Error ''Not implemented: use either `unwrapOr` or `unwrapOrElse` instead.'')"

section \<open>Class \<open>Result\<close>: querying the variant and extracting the value\<close>

definition Result_isOk :: "nat \<Rightarrow> bool comp" where
  "Result_isOk this =
     bind_comp (get_result this) (\<lambda>internal. ret (result_type internal = ResultType_Ok))"

definition Result_isErr :: "nat \<Rightarrow> bool comp" where
  "Result_isErr this =
     bind_comp (get_result this) (\<lambda>internal. ret (result_type internal = ResultType_Err))"

definition Result_expect :: "nat \<Rightarrow> string \<Rightarrow> jsval comp" where
  "Result_expect this message =
     bind_comp (get_result this) (\<lambda>internal.
       if result_type internal = ResultType_Err
       then throw (Error (message @ '': '' @ js_to_string (result_error internal)))
       else ret (result_value internal))"

definition Result_unwrap :: "nat \<Rightarrow> jsval comp" where
  "Result_unwrap this =
     bind_comp (get_result this) (\<lambda>internal.
       if result_type internal = ResultType_Err
       then throw (Error (js_to_string (result_error internal)))
       else ret (result_value internal))"

definition Result_unwrapOr :: "nat \<Rightarrow> jsval \<Rightarrow> jsval comp" where
  "Result_unwrapOr this defaultValue =
     bind_comp (get_result this) (\<lambda>internal.
       ret (if result_type internal = ResultType_Err then defaultValue
            else result_value internal))"

definition Result_unwrapOrElse :: "nat \<Rightarrow> (jsval \<Rightarrow> jsval comp) \<Rightarrow> jsval comp" where
  "Result_unwrapOrElse this defaultValueFunc =
     bind_comp (get_result this) (\<lambda>internal.
       if result_type internal = ResultType_Err then defaultValueFunc (result_error internal)
       else ret (result_value internal))"

definition Result_unwrapOrDefault :: "nat \<Rightarrow> jsval comp" where
  "Result_unwrapOrDefault this =
     throw (Error ''Not implemented: use either `unwrapOr` or `unwrapOrElse` instead.'')"

definition Result_expectErr :: "nat \<Rightarrow> string \<Rightarrow> jsval comp" where
  "Result_expectErr this message =
     bind_comp (get_result this) (\<lambda>internal.
       if result_type internal = ResultType_Ok
       then throw (Error (message @ '': '' @ js_to_string (result_value internal)))
       else ret (result_error internal))"

definition Result_unwrapErr :: "nat \<Rightarrow> jsval comp" where
  "Result_unwrapErr this =
     bind_comp (get_result this) (\<lambda>internal.
       if result_type internal = ResultType_Ok
       then throw (Error (js_to_string (result_value internal)))
       else ret (result_error internal))"

section \<open>Class \<open>Result\<close>: transforming, combining, iterating\<close>

definition Result_err :: "nat \<Rightarrow> nat comp" where
  "Result_err this =
     bind_comp (get_result this) (\<lambda>internal.
       if result_type internal = ResultType_Err then Option_Some (result_error internal)
       else Option_None)"

definition Result_ok :: "nat \<Rightarrow> nat comp" where
  "Result_ok this =
     bind_comp (get_result this) (\<lambda>internal.
       if result_type internal = ResultType_Err then Option_None
       else Option_Some (result_value internal))"

text \<open>
  \<open>transpose\<close>: on \<open>Err\<close> a new \<open>Result\<close> is built and wrapped in \<open>Some\<close>; on \<open>Ok\<close> of an
  \<open>Option\<close> instance the source returns \<open>None\<close> or \<open>Option.Some(value.unwrap())\<close>.
\<close>

definition Result_transpose :: "nat \<Rightarrow> nat comp" where
  "Result_transpose this =
     bind_comp (get_result this) (\<lambda>internal.
       if result_type internal = ResultType_Err
       then bind_comp (new_Result (ErrInternal (result_error internal))) (\<lambda>r.
              Option_Some (ResultRef r))
       else if result_type internal = ResultType_Ok
       then (case result_value internal of
               OptionRef v \<Rightarrow>
                 bind_comp (Option_isNone v) (\<lambda>b.
                   if b then Option_None
                   else bind_comp (Option_unwrap v) (\<lambda>x. Option_Some x))
             | _ \<Rightarrow> throw (Error ''Called `transpose` on a invalid `Ok` value.''))
       else throw (Error ''Called `transpose` on a invalid `Ok` value.''))"

definition Result_map :: "nat \<Rightarrow> (jsval \<Rightarrow> jsval comp) \<Rightarrow> nat comp" where
  "Result_map this valueMapperFunc =
     bind_comp (get_result this) (\<lambda>internal.
       if result_type internal = ResultType_Err then new_Result internal
       else bind_comp (valueMapperFunc (result_value internal)) (\<lambda>x.
              new_Result (OkInternal x)))"

definition Result_mapErr :: "nat \<Rightarrow> (jsval \<Rightarrow> jsval comp) \<Rightarrow> nat comp" where
  "Result_mapErr this errorMapperFunc =
     bind_comp (get_result this) (\<lambda>internal.
       if result_type internal = ResultType_Ok then new_Result internal
       else bind_comp (errorMapperFunc (result_error internal)) (\<lambda>x.
              new_Result (ErrInternal x)))"

definition Result_mapOr :: "nat \<Rightarrow> jsval \<Rightarrow> (jsval \<Rightarrow> jsval comp) \<Rightarrow> jsval comp" where
  "Result_mapOr this defaultValue valueMapperFunc =
     bind_comp (get_result this) (\<lambda>internal.
       if result_type internal = ResultType_Err then ret defaultValue
       else valueMapperFunc (result_value internal))"

definition Result_mapOrElse ::
  "nat \<Rightarrow> (jsval \<Rightarrow> jsval comp) \<Rightarrow> (jsval \<Rightarrow> jsval comp) \<Rightarrow> jsval comp" where
  "Result_mapOrElse this defaultValueFunc valueMapperFunc =
     bind_comp (get_result this) (\<lambda>internal.
       if result_type internal = ResultType_Err then defaultValueFunc (result_error internal)
       else valueMapperFunc (result_value internal))"

definition Result_and :: "nat \<Rightarrow> nat \<Rightarrow> nat comp" where
  "Result_and this other =
     bind_comp (get_result this) (\<lambda>internal.
       if result_type internal = ResultType_Err then ret this else ret other)"

definition Result_or :: "nat \<Rightarrow> nat \<Rightarrow> nat comp" where
  "Result_or this other =
     bind_comp (get_result this) (\<lambda>internal.
       if result_type internal = ResultType_Ok then ret this else ret other)"

definition Result_andThen :: "nat \<Rightarrow> (jsval \<Rightarrow> nat comp) \<Rightarrow> nat comp" where
  "Result_andThen this valueConverterFunc =
     bind_comp (get_result this) (\<lambda>internal.
       if result_type internal = ResultType_Err then ret this
       else valueConverterFunc (result_value internal))"

definition Result_orElse :: "nat \<Rightarrow> (jsval \<Rightarrow> nat comp) \<Rightarrow> nat comp" where
  "Result_orElse this errorConverterFunc =
     bind_comp (get_result this) (\<lambda>internal.
       if result_type internal = ResultType_Ok then ret this
       else errorConverterFunc (result_error internal))"

text \<open>
  \<open>*intoIter()\<close> only makes the generator object; its body runs at \<open>next()\<close>.
\<close>

definition Result_intoIter :: "nat \<Rightarrow> nat comp" where
  "Result_intoIter this = new_Generator (ResultIter this NotStarted)"

section \<open>Class \<open>Option\<close>: transforming the contained value\<close>

definition Option_okOr :: "nat \<Rightarrow> jsval \<Rightarrow> nat comp" where
  "Option_okOr this err =
     bind_comp (get_option this) (\<lambda>internal.
       if option_type internal = OptionType_None then Result_Err err
       else Result_Ok (option_value internal))"

definition Option_okOrElse :: "nat \<Rightarrow> jsval comp \<Rightarrow> nat comp" where
  "Option_okOrElse this errorFunc =
     bind_comp (get_option this) (\<lambda>internal.
       if option_type internal = OptionType_None
       then bind_comp errorFunc (\<lambda>e. Result_Err e)
       else Result_Ok (option_value internal))"

text \<open>
  \<open>transpose\<close>: on \<open>None\<close> a new \<open>None\<close> is built and wrapped in \<open>Ok\<close>; on \<open>Some\<close> of a
  \<open>Result\<close> instance the source returns \<open>Result.Err(value.unwrapErr())\<close> or
  \<open>Result.Ok(value.unwrap())\<close>.
\<close>

definition Option_transpose :: "nat \<Rightarrow> nat comp" where
  "Option_transpose this =
     bind_comp (get_option this) (\<lambda>internal.
       if option_type internal = OptionType_None
       then bind_comp (new_Option NoneInternal) (\<lambda>n. Result_Ok (OptionRef n))
       else if option_type internal = OptionType_Some
       then (case option_value internal of
               ResultRef v \<Rightarrow>
                 bind_comp (Result_isErr v) (\<lambda>b.
                   if b then bind_comp (Result_unwrapErr v) (\<lambda>e. Result_Err e)
                   else bind_comp (Result_unwrap v) (\<lambda>x. Result_Ok x))
             | _ \<Rightarrow> throw (Error ''Called `transpose` on a invalid `Some` value.''))
       else throw (Error ''Called `transpose` on a invalid `Some` value.''))"

text \<open>
  \<open>filter\<close> reads \<open>this.internal\<close> again, after the predicate has run, for the copy.
\<close>

definition Option_filter :: "nat \<Rightarrow> (jsval \<Rightarrow> bool comp) \<Rightarrow> nat comp" where
  "Option_filter this predicate =
     bind_comp (get_option this) (\<lambda>internal.
       if option_type internal = OptionType_Some
       then bind_comp (predicate (option_value internal)) (\<lambda>b.
              if b then bind_comp (get_option this) (\<lambda>init. new_Option init)
              else new_Option NoneInternal)
       else new_Option NoneInternal)"

definition Option_flatten :: "nat \<Rightarrow> nat comp" where
  "Option_flatten this =
     bind_comp (get_option this) (\<lambda>internal.
       if option_type internal = OptionType_None then new_Option NoneInternal
       else if option_type internal = OptionType_Some
       then (case option_value internal of
               OptionRef v \<Rightarrow>
                 bind_comp (get_option v) (\<lambda>inner.
                   if option_type inner = OptionType_None then new_Option NoneInternal
                   else bind_comp (Option_unwrap v) (\<lambda>x. new_Option (SomeInternal x)))
             | _ \<Rightarrow> throw (Error ''Called `flatten` on a non-nested `Some` value.''))
       else throw (Error ''Called `flatten` on a non-nested `Some` value.''))"

definition Option_map :: "nat \<Rightarrow> (jsval \<Rightarrow> jsval comp) \<Rightarrow> nat comp" where
  "Option_map this valueMapperFunc =
     bind_comp (get_option this) (\<lambda>internal.
       if option_type internal = OptionType_None then new_Option NoneInternal
       else bind_comp (valueMapperFunc (option_value internal)) (\<lambda>x.
              new_Option (SomeInternal x)))"

definition Option_mapOr :: "nat \<Rightarrow> jsval \<Rightarrow> (jsval \<Rightarrow> jsval comp) \<Rightarrow> jsval comp" where
  "Option_mapOr this defaultValue valueMapperFunc =
     bind_comp (get_option this) (\<lambda>internal.
       if option_type internal = OptionType_None then ret defaultValue
       else valueMapperFunc (option_value internal))"

definition Option_mapOrElse :: "nat \<Rightarrow> jsval comp \<Rightarrow> (jsval \<Rightarrow> jsval comp) \<Rightarrow> jsval comp" where
  "Option_mapOrElse this defaultValueFunc valueMapperFunc =
     bind_comp (get_option this) (\<lambda>internal.
       if option_type internal = OptionType_None then defaultValueFunc
       else valueMapperFunc (option_value internal))"

definition Option_zip :: "nat \<Rightarrow> nat \<Rightarrow> nat comp" where
  "Option_zip this other =
     bind_comp (get_option this) (\<lambda>internal.
     bind_comp (get_option other) (\<lambda>otherInternal.
       if option_type internal = OptionType_None \<or> option_type otherInternal = OptionType_None
       then new_Option NoneInternal
       else bind_comp (Option_unwrap other) (\<lambda>y.
              new_Option (SomeInternal (JArray [option_value internal, y])))))"

definition Option_zipWith :: "nat \<Rightarrow> nat \<Rightarrow> (jsval \<Rightarrow> jsval \<Rightarrow> jsval comp) \<Rightarrow> nat comp" where
  "Option_zipWith this other valueZipperFunc =
     bind_comp (get_option this) (\<lambda>internal.
     bind_comp (get_option other) (\<lambda>otherInternal.
       if option_type internal = OptionType_None \<or> option_type otherInternal = OptionType_None
       then new_Option NoneInternal
       else bind_comp (Option_unwrap other) (\<lambda>y.
            bind_comp (valueZipperFunc (option_value internal) y) (\<lambda>z.
              new_Option (SomeInternal z)))))"

section \<open>Class \<open>Option\<close>: boolean operators\<close>

text \<open>These return the receiver or the argument itself: no object is made.\<close>

definition Option_and :: "nat \<Rightarrow> nat \<Rightarrow> nat comp" where
  "Option_and this other =
     bind_comp (get_option this) (\<lambda>internal.
       if option_type internal = OptionType_None then ret this else ret other)"

definition Option_or :: "nat \<Rightarrow> nat \<Rightarrow> nat comp" where
  "Option_or this other =
     bind_comp (get_option this) (\<lambda>internal.
       ret (if option_type internal = OptionType_None then other else this))"

text \<open>
  \<open>xor\<close>, the same text in both source files: two guarded returns, then
  \<open>return this\<close> for every remaining case.
\<close>

definition Option_xor :: "nat \<Rightarrow> nat \<Rightarrow> nat comp" where
  "Option_xor this other =
     bind_comp (get_option this) (\<lambda>internal.
     bind_comp (get_option other) (\<lambda>otherInternal.
       if option_type internal = OptionType_Some \<and> option_type otherInternal = OptionType_None
       then ret this
       else if option_type internal = OptionType_None
               \<and> option_type otherInternal = OptionType_Some
       then ret other
       else ret this))"

definition Option_andThen :: "nat \<Rightarrow> (jsval \<Rightarrow> nat comp) \<Rightarrow> nat comp" where
  "Option_andThen this valueConverterFunc =
     bind_comp (get_option this) (\<lambda>internal.
       if option_type internal = OptionType_None then ret this
       else valueConverterFunc (option_value internal))"

definition Option_orElse :: "nat \<Rightarrow> nat comp \<Rightarrow> nat comp" where
  "Option_orElse this getterFunc =
     bind_comp (get_option this) (\<lambda>internal.
       if option_type internal = OptionType_None then getterFunc else ret this)"

definition Option_intoIter :: "nat \<Rightarrow> nat comp" where
  "Option_intoIter this = new_Generator (OptionIter this NotStarted)"

section \<open>Class \<open>Option\<close>: modifying in place\<close>

text \<open>
  \<open>insert\<close> on \<open>Some\<close> assigns the \<open>value\<close> field of the existing record
  (\<open>with_value\<close>; the source makes that assignment on a \<open>Some\<close> record only). Each of
  these methods reads \<open>this.internal.value\<close> again for its result.
\<close>

fun with_value :: "OptionInternal \<Rightarrow> jsval \<Rightarrow> OptionInternal" where
  "with_value (SomeInternal w) v = SomeInternal v"
| "with_value NoneInternal v = NoneInternal"

definition Option_insert :: "nat \<Rightarrow> jsval \<Rightarrow> jsval comp" where
  "Option_insert this v =
     bind_comp (get_option this) (\<lambda>internal.
     bind_comp (if option_type internal = OptionType_None
                then set_option this (SomeInternal v)
                else set_option this (with_value internal v)) (\<lambda>u.
     bind_comp (get_option this) (\<lambda>internal'. ret (option_value internal'))))"

definition Option_getOrInsert :: "nat \<Rightarrow> jsval \<Rightarrow> jsval comp" where
  "Option_getOrInsert this v =
     bind_comp (get_option this) (\<lambda>internal.
     bind_comp (if option_type internal = OptionType_None
                then set_option this (SomeInternal v)
                else ret ()) (\<lambda>u.
     bind_comp (get_option this) (\<lambda>internal'. ret (option_value internal'))))"

definition Option_getOrInsertWith :: "nat \<Rightarrow> jsval comp \<Rightarrow> jsval comp" where
  "Option_getOrInsertWith this insertValueFunc =
     bind_comp (get_option this) (\<lambda>internal.
     bind_comp (if option_type internal = OptionType_None
                then bind_comp insertValueFunc (\<lambda>v. set_option this (SomeInternal v))
                else ret ()) (\<lambda>u.
     bind_comp (get_option this) (\<lambda>internal'. ret (option_value internal'))))"

definition Option_getOrInsertDefault :: "nat \<Rightarrow> jsval comp" where
  "Option_getOrInsertDefault this =
     throw (Error ''Not implemented: use either `getOrInsert` or `getOrInsertWith` instead.'')"

text \<open>
  \<open>take\<close> and \<open>replace\<close>: \<open>const init = this.internal\<close> keeps the old record,
  \<open>this.internal = ...\<close> gives the receiver a new one, and \<open>new Option<T>(init)\<close>
  copies the old record into a new object.
\<close>

definition Option_take :: "nat \<Rightarrow> nat comp" where
  "Option_take this =
     bind_comp (get_option this) (\<lambda>init.
     bind_comp (set_option this NoneInternal) (\<lambda>u.
       new_Option init))"

definition Option_replace :: "nat \<Rightarrow> jsval \<Rightarrow> nat comp" where
  "Option_replace this v =
     bind_comp (get_option this) (\<lambda>init.
     bind_comp (set_option this (SomeInternal v)) (\<lambda>u.
       new_Option init))"

section \<open>Generators\<close>

text \<open>
  The body of both \<open>intoIter\<close> generators is
  \<open>if (<the empty variant>) { return; } yield this.internal.value;\<close>.
  \<open>next()\<close> returns \<open>Some v\<close> for \<open>{ value: v, done: false }\<close> and \<open>None\<close> for
  \<open>{ done: true }\<close>.
\<close>

definition Generator_next :: "nat \<Rightarrow> jsval option comp" where
  "Generator_next g =
     bind_comp (get_generator g) (\<lambda>gen.
       case gen of
         OptionIter this NotStarted \<Rightarrow>
           bind_comp (get_option this) (\<lambda>internal.
             if option_type internal = OptionType_None
             then bind_comp (set_generator g (OptionIter this Finished)) (\<lambda>u. ret None)
             else bind_comp (set_generator g (OptionIter this AtYield)) (\<lambda>u.
                    ret (Some (option_value internal))))
       | OptionIter this AtYield \<Rightarrow>
           bind_comp (set_generator g (OptionIter this Finished)) (\<lambda>u. ret None)
       | OptionIter this Finished \<Rightarrow> ret None
       | ResultIter this NotStarted \<Rightarrow>
           bind_comp (get_result this) (\<lambda>internal.
             if result_type internal = ResultType_Err
             then bind_comp (set_generator g (ResultIter this Finished)) (\<lambda>u. ret None)
             else bind_comp (set_generator g (ResultIter this AtYield)) (\<lambda>u.
                    ret (Some (result_value internal))))
       | ResultIter this AtYield \<Rightarrow>
           bind_comp (set_generator g (ResultIter this Finished)) (\<lambda>u. ret None)
       | ResultIter this Finished \<Rightarrow> ret None)"

section \<open>What an operation may change\<close>

text \<open>
  An address is a container of the store when it is below the counter of its class.
\<close>

definition is_option_of :: "heap \<Rightarrow> nat \<Rightarrow> bool" where
  "is_option_of h a = (a < option_count h)"

text \<open>
  \<open>frame X h h'\<close>: going from \<open>h\<close> to \<open>h'\<close>, every container of \<open>h\<close> is still there, every
  \<open>Option\<close> of \<open>h\<close> outside \<open>X\<close> has the variant and payload it had, and so has every
  \<open>Result\<close> of \<open>h\<close>. \<open>modifies_only X m\<close>: the computation \<open>m\<close> does so from every store,
  whether it returns or throws.
\<close>

definition frame :: "nat set \<Rightarrow> heap \<Rightarrow> heap \<Rightarrow> bool" where
  "frame X h h' =
     (option_count h \<le> option_count h' \<and> result_count h \<le> result_count h'
      \<and> (\<forall>a \<in> {..<option_count h} - X. options h' a = options h a)
      \<and> (\<forall>a \<in> {..<result_count h}. results h' a = results h a))"

definition modifies_only :: "nat set \<Rightarrow> 'a comp \<Rightarrow> bool" where
  "modifies_only X m = (\<forall>h. frame X h (snd (m h)))"

text \<open>
  A store to run examples on: \<open>Option.Some(1)\<close> at address 0 and \<open>Option.Some(2)\<close> at
  address 1, and \<open>Result.Err("e")\<close> at address 0 of the results.
\<close>

definition example_heap :: heap where
  "example_heap =
     snd (bind_comp (Option_Some (js_int 1)) (\<lambda>a.
          bind_comp (Option_Some (js_int 2)) (\<lambda>b.
          Result_Err (JStr ''e''))) empty_heap)"

text \<open>
  A predicate with an effect, \<open>v => { o.take(); return true; }\<close>, for the container
  \<open>o\<close> at address \<open>a\<close>.
\<close>

definition take_then_true :: "nat \<Rightarrow> jsval \<Rightarrow> bool comp" where
  "take_then_true a v = bind_comp (Option_take a) (\<lambda>t. ret True)"

section \<open>Evaluation rules\<close>

lemmas comp_defs = ret_def throw_def bind_comp_def returns_def throws_def thrown_message_def

lemmas store_defs = get_option_def set_option_def get_result_def
  new_Option_def new_Result_def Option_None_def Option_Some_def Result_Ok_def Result_Err_def

lemma example_heap_simps:
  "option_count example_heap = 2"
  "result_count example_heap = 1"
  "options example_heap 0 = SomeInternal (js_int 1)"
  "options example_heap (Suc 0) = SomeInternal (js_int 2)"
  "results example_heap 0 = ErrInternal (JStr ''e'')"
  by (simp_all add: example_heap_def comp_defs store_defs empty_heap_def)

section \<open>Transposition\<close>

text \<open>
  The two branches of \<open>Result.transpose\<close> that wrap their result: \<open>Err(e)\<close> becomes a
  \<open>Some\<close> holding a new \<open>Err(e)\<close>, and \<open>Ok(None)\<close> becomes \<open>None\<close>.
\<close>

lemma Result_transpose_Err:
  assumes "results h res = ErrInternal e"
  shows "Result_transpose res h =
           (Inr (option_count h),
            h\<lparr> results := (results h)(result_count h := ErrInternal e),
               result_count := Suc (result_count h),
               options := (options h)(option_count h := SomeInternal (ResultRef (result_count h))),
               option_count := Suc (option_count h) \<rparr>)"
  using assms by (simp add: comp_defs store_defs Result_transpose_def)

lemma Result_transpose_Ok_None:
  assumes "results h res = OkInternal (OptionRef a)" and "options h a = NoneInternal"
  shows "returns (bind_comp (Result_transpose res) Option_isNone h) True"
  using assms
  by (simp add: comp_defs store_defs Result_transpose_def Option_isNone_def)

text \<open>
  C1. The claim: \<open>Result.transpose()\<close> maps \<open>Ok(Some(v))\<close> to \<open>Some(Ok(v))\<close>, so that
  \<open>Result.Ok(Option.Some(5)).transpose().unwrap()\<close> is a \<open>Result\<close> whose \<open>unwrap()\<close>
  is 5. The source returns \<open>Option.Some(value.unwrap())\<close> in that branch: the \<open>Some\<close>
  it returns holds the inner value \<open>v\<close> itself, not a \<open>Result\<close>. Evaluated from the empty
  store, \<open>Result.Ok(Option.Some(5)).transpose()\<close> is a \<open>Some\<close> and its \<open>unwrap()\<close> is the
  number 5.
\<close>

theorem Result_transpose_Ok_Some_payload:
  "returns
     (bind_comp (Option_Some (js_int 5)) (\<lambda>s.
      bind_comp (Result_Ok (OptionRef s)) (\<lambda>r.
      bind_comp (Result_transpose r) (\<lambda>t.
      bind_comp (Option_isSome t) (\<lambda>b.
      bind_comp (Option_unwrap t) (\<lambda>x. ret (b, x)))))) empty_heap)
     (True, js_int 5)"
  by (simp add: comp_defs store_defs Result_transpose_def Option_isNone_def Option_isSome_def
      Option_unwrap_def empty_heap_def)

text \<open>
  The branches of \<open>Option.transpose\<close> that agree with the claim below: \<open>None\<close> becomes an
  \<open>Ok\<close> holding a new \<open>None\<close>, \<open>Some(Err(e))\<close> becomes \<open>Err(e)\<close>, and a \<open>Some\<close> whose
  payload is not a \<open>Result\<close> instance throws.
\<close>

lemma Option_transpose_None:
  assumes "options h this = NoneInternal"
  shows "Option_transpose this h =
           (Inr (result_count h),
            h\<lparr> options := (options h)(option_count h := NoneInternal),
               option_count := Suc (option_count h),
               results := (results h)(result_count h := OkInternal (OptionRef (option_count h))),
               result_count := Suc (result_count h) \<rparr>)"
  using assms by (simp add: comp_defs store_defs Option_transpose_def)

lemma Option_transpose_Some_Err:
  assumes "options h this = SomeInternal (ResultRef r)" and "results h r = ErrInternal e"
  shows "returns (bind_comp (Option_transpose this) get_result h) (ErrInternal e)"
  using assms
  by (simp add: comp_defs store_defs Option_transpose_def Result_isErr_def
      Result_unwrapErr_def)

lemma Option_transpose_throws_iff:
  "throws (Option_transpose this h)
   = (\<exists>v. options h this = SomeInternal v \<and> (\<forall>r. v \<noteq> ResultRef r))"
proof (cases "options h this")
  case NoneInternal
  then show ?thesis
    by (simp add: comp_defs store_defs Option_transpose_def)
next
  case (SomeInternal v)
  then show ?thesis
    by (cases v)
      (simp_all add: comp_defs store_defs Option_transpose_def Result_isErr_def
        Result_unwrapErr_def Result_unwrap_def)
qed

text \<open>
  C2. The claim: \<open>Option.transpose()\<close> maps \<open>Some(Ok(v))\<close> to \<open>Result.Ok(Some(v))\<close>.
  The source returns \<open>Result.Ok(value.unwrap())\<close> in that branch: the \<open>Ok\<close> it returns
  holds the inner value \<open>v\<close> itself, not an \<open>Option\<close>. Evaluated from the empty store,
  \<open>Option.Some(Result.Ok(5)).transpose()\<close> is an \<open>Ok\<close> and its \<open>unwrap()\<close> is the number 5.
\<close>

theorem Option_transpose_Some_Ok_payload:
  "returns
     (bind_comp (Result_Ok (js_int 5)) (\<lambda>r.
      bind_comp (Option_Some (ResultRef r)) (\<lambda>s.
      bind_comp (Option_transpose s) (\<lambda>t.
      bind_comp (Result_isOk t) (\<lambda>b.
      bind_comp (Result_unwrap t) (\<lambda>x. ret (b, x)))))) empty_heap)
     (True, js_int 5)"
  by (simp add: comp_defs store_defs Option_transpose_def Result_isErr_def Result_isOk_def
      Result_unwrap_def empty_heap_def)

section \<open>Exclusive or\<close>

text \<open>
  Where \<open>xor\<close> agrees with the claim below: with exactly one \<open>Some\<close> it returns that
  container, and with two \<open>None\<close> it returns the receiver, a \<open>None\<close>.
\<close>

lemma Option_xor_not_both_Some:
  assumes "options h a = NoneInternal \<or> options h b = NoneInternal"
  shows "Option_xor a b h =
           (Inr (if options h a = NoneInternal \<and> options h b \<noteq> NoneInternal then b else a), h)"
  using assms
  by (cases "options h a"; cases "options h b")
    (simp_all add: comp_defs store_defs Option_xor_def)

text \<open>
  C3. The claim: \<open>a.xor(b)\<close> yields \<open>None\<close> when both are \<open>Some\<close>, so that
  \<open>Option.Some(1).xor(Option.Some(2))\<close> yields \<open>None\<close>. With both \<open>Some\<close> neither guard of
  the source holds and its final \<open>return this\<close> returns the receiver. Evaluated from the
  empty store, \<open>Option.Some(1).xor(Option.Some(2))\<close> is the receiver itself, it is not
  \<open>None\<close>, and its \<open>unwrap()\<close> is 1.
\<close>

theorem Option_xor_both_Some:
  "returns
     (bind_comp (Option_Some (js_int 1)) (\<lambda>a.
      bind_comp (Option_Some (js_int 2)) (\<lambda>b.
      bind_comp (Option_xor a b) (\<lambda>x.
      bind_comp (Option_isNone x) (\<lambda>n.
      bind_comp (Option_unwrap x) (\<lambda>v. ret (x = a, n, v)))))) empty_heap)
     (True, False, js_int 1)"
  by (simp add: comp_defs store_defs Option_xor_def Option_isNone_def
      Option_unwrap_def empty_heap_def)

section \<open>Conversion between the two classes\<close>

text \<open>
  C4. For every value \<open>v\<close>, every error \<open>e\<close> and every store,
  \<open>Option.Some(v).okOr(e).ok().unwrap()\<close> returns \<open>v\<close> and
  \<open>Option.None().okOr(e).unwrapErr()\<close> returns \<open>e\<close>. More generally \<open>okOr(e)\<close> on any
  receiver makes an \<open>Ok(v)\<close> from \<open>Some(v)\<close> and an \<open>Err(e)\<close> from \<open>None\<close>, and \<open>ok()\<close> on
  any receiver makes a \<open>Some(v)\<close> from \<open>Ok(v)\<close> and a \<open>None\<close> from \<open>Err\<close>.
\<close>

theorem okOr_round_trip:
  "returns
     (bind_comp (Option_Some v) (\<lambda>s.
      bind_comp (Option_okOr s e) (\<lambda>r.
      bind_comp (Result_ok r) (\<lambda>t. Option_unwrap t))) h) v
   \<and> returns
     (bind_comp Option_None (\<lambda>n.
      bind_comp (Option_okOr n e) (\<lambda>r. Result_unwrapErr r)) h) e
   \<and> returns (bind_comp (Option_okOr this e) get_result h)
       (case options h this of SomeInternal x \<Rightarrow> OkInternal x | NoneInternal \<Rightarrow> ErrInternal e)
   \<and> returns (bind_comp (Result_ok res) get_option h)
       (case results h res of OkInternal x \<Rightarrow> SomeInternal x | ErrInternal x \<Rightarrow> NoneInternal)"
  by (simp add: comp_defs store_defs Option_okOr_def Result_ok_def Option_unwrap_def
      Result_unwrapErr_def split: OptionInternal.split ResultInternal.split)

section \<open>Extraction and its errors\<close>




section \<open>The unsupported defaults\<close>

text \<open>
  C7. For every receiver and every store, so in either variant, \<open>unwrapOrDefault()\<close> of
  both classes and \<open>getOrInsertDefault()\<close> of \<open>Option\<close> throw the \<open>Not implemented\<close> error
  and leave the store, the receiver included, exactly as it was: they never return a
  value.
\<close>

theorem default_operations_always_throw:
  "Option_unwrapOrDefault this h =
     (Inl (Error ''Not implemented: use either `unwrapOr` or `unwrapOrElse` instead.''), h)
   \<and> Option_getOrInsertDefault this h =
     (Inl (Error ''Not implemented: use either `getOrInsert` or `getOrInsertWith` instead.''), h)
   \<and> Result_unwrapOrDefault res h =
     (Inl (Error ''Not implemented: use either `unwrapOr` or `unwrapOrElse` instead.''), h)"
  by (simp add: throw_def Option_unwrapOrDefault_def Option_getOrInsertDefault_def
      Result_unwrapOrDefault_def)

section \<open>Mapping\<close>

text \<open>
  C9. For every \<open>Option\<close> \<open>opt\<close>, every store and all pure functions \<open>f\<close> and \<open>g\<close> (callbacks
  that return a value and touch nothing), the container made by \<open>opt.map(f).map(g)\<close> and
  the one made by \<open>opt.map(x => g(f(x)))\<close> have the same variant and payload: \<open>None\<close> when
  \<open>opt\<close> is \<open>None\<close>, and \<open>Some(g(f(v)))\<close> when \<open>opt\<close> is \<open>Some(v)\<close>.
\<close>

theorem map_composition:
  "fst (bind_comp (Option_map opt (\<lambda>x. ret (f x))) (\<lambda>a.
        bind_comp (Option_map a (\<lambda>x. ret (g x))) get_option) h)
   = fst (bind_comp (Option_map opt (\<lambda>x. ret (g (f x)))) get_option h)
   \<and> returns (bind_comp (Option_map opt (\<lambda>x. ret (g (f x)))) get_option h)
       (case options h opt of
          NoneInternal \<Rightarrow> NoneInternal
        | SomeInternal v \<Rightarrow> SomeInternal (g (f v)))"
  by (simp add: comp_defs store_defs Option_map_def split: OptionInternal.split)

section \<open>Construction\<close>

text \<open>
  C10. For every payload \<open>v\<close> and every store, the container made by \<open>Option.Some(v)\<close>
  answers \<open>true\<close> to \<open>isSome()\<close>, \<open>false\<close> to \<open>isNone()\<close>, and \<open>unwrap()\<close> returns \<open>v\<close>;
  \<open>null\<close> and \<open>undefined\<close> are payloads like any other, and the container made by
  \<open>Option.None()\<close> answers the other way round.
\<close>

theorem Some_of_any_payload:
  "returns
     (bind_comp (Option_Some v) (\<lambda>s.
      bind_comp (Option_isSome s) (\<lambda>a.
      bind_comp (Option_isNone s) (\<lambda>b.
      bind_comp (Option_unwrap s) (\<lambda>x. ret (a, b, x))))) h)
     (True, False, v)
   \<and> returns
     (bind_comp (Option_Some JNull) (\<lambda>s.
      bind_comp (Option_isSome s) (\<lambda>a.
      bind_comp (Option_isNone s) (\<lambda>b.
      bind_comp (Option_unwrap s) (\<lambda>x. ret (a, b, x))))) h)
     (True, False, JNull)
   \<and> returns
     (bind_comp (Option_Some JUndefined) (\<lambda>s.
      bind_comp (Option_isSome s) (\<lambda>a.
      bind_comp (Option_isNone s) (\<lambda>b.
      bind_comp (Option_unwrap s) (\<lambda>x. ret (a, b, x))))) h)
     (True, False, JUndefined)
   \<and> returns
     (bind_comp Option_None (\<lambda>s.
      bind_comp (Option_isSome s) (\<lambda>a.
      bind_comp (Option_isNone s) (\<lambda>b. ret (a, b)))) h)
     (False, True)"
  by (simp add: comp_defs store_defs Option_isSome_def Option_isNone_def Option_unwrap_def)

section \<open>Modifying an \<open>Option\<close> in place\<close>

text \<open>
  C6. For every \<open>Option\<close> \<open>o\<close> of the store, \<open>o.take()\<close> returns a container that was
  not in the store before (a new one), that container holds the variant and payload \<open>o\<close>
  had, and \<open>o\<close> is \<open>None\<close> afterwards; \<open>o.replace(v)\<close> returns a new container holding the
  variant and payload \<open>o\<close> had, and \<open>o\<close> is \<open>Some(v)\<close> afterwards.
\<close>

theorem take_replace_contract:
  assumes "is_option_of h this"
  shows "(case Option_take this h of (r, h') \<Rightarrow>
            r = Inr (option_count h)
            \<and> \<not> is_option_of h (option_count h) \<and> is_option_of h' (option_count h)
            \<and> options h' (option_count h) = options h this
            \<and> options h' this = NoneInternal
            \<and> returns (Option_isNone this h') True)
       \<and> (case Option_replace this v h of (r, h') \<Rightarrow>
            r = Inr (option_count h)
            \<and> \<not> is_option_of h (option_count h) \<and> is_option_of h' (option_count h)
            \<and> options h' (option_count h) = options h this
            \<and> options h' this = SomeInternal v
            \<and> returns (Option_unwrap this h') v)"
  using assms
  by (simp add: comp_defs store_defs Option_take_def Option_replace_def Option_isNone_def
      Option_unwrap_def is_option_of_def)

text \<open>
  The example of C6, on the store that holds only \<open>o = Option.Some(1)\<close>, at address 0:
  \<open>o.take()\<close> returns the new container at address 1, which is \<open>Some(1)\<close>, and leaves
  \<open>o\<close> as \<open>None\<close>; \<open>o.replace(2)\<close> returns a new \<open>Some(1)\<close> and leaves \<open>o\<close> as \<open>Some(2)\<close>.
\<close>

theorem take_replace_contract_witness:
  "is_option_of (snd (Option_Some (js_int 1) empty_heap)) 0
   \<and> fst (Option_take 0 (snd (Option_Some (js_int 1) empty_heap))) = Inr 1
   \<and> options (snd (Option_take 0 (snd (Option_Some (js_int 1) empty_heap)))) 1
       = SomeInternal (js_int 1)
   \<and> options (snd (Option_take 0 (snd (Option_Some (js_int 1) empty_heap)))) 0 = NoneInternal
   \<and> fst (Option_replace 0 (js_int 2) (snd (Option_Some (js_int 1) empty_heap))) = Inr 1
   \<and> options (snd (Option_replace 0 (js_int 2) (snd (Option_Some (js_int 1) empty_heap)))) 1
       = SomeInternal (js_int 1)
   \<and> options (snd (Option_replace 0 (js_int 2) (snd (Option_Some (js_int 1) empty_heap)))) 0
       = SomeInternal (js_int 2)"
proof -
  have a: "is_option_of (snd (Option_Some (js_int 1) empty_heap)) 0"
    by (simp add: is_option_of_def store_defs empty_heap_def)
  have s: "options (snd (Option_Some (js_int 1) empty_heap)) 0 = SomeInternal (js_int 1)"
    "option_count (snd (Option_Some (js_int 1) empty_heap)) = 1"
    by (simp_all add: store_defs empty_heap_def)
  show ?thesis
    using a take_replace_contract [OF a, of "js_int 2"]
    by (simp add: s split: prod.splits)
qed

section \<open>The frame of every operation\<close>

lemma frame_refl: "frame X h h"
  by (simp add: frame_def)

lemma frame_trans: "frame X h h' \<Longrightarrow> frame X h' h'' \<Longrightarrow> frame X h h''"
  unfolding frame_def by (auto simp: subset_iff)

lemma frame_mono: "X \<subseteq> Y \<Longrightarrow> frame X h h' \<Longrightarrow> frame Y h h'"
  unfolding frame_def by auto

lemma modifies_only_insert: "modifies_only X m \<Longrightarrow> modifies_only (insert a X) m"
  unfolding modifies_only_def by (blast intro: frame_mono)

lemma modifies_only_ret: "modifies_only X (ret x)"
  by (simp add: modifies_only_def ret_def frame_refl)

lemma modifies_only_throw: "modifies_only X (throw e)"
  by (simp add: modifies_only_def throw_def frame_refl)

lemma modifies_only_bind:
  assumes "modifies_only X m" and "\<And>x. modifies_only X (f x)"
  shows "modifies_only X (bind_comp m f)"
proof -
  have "frame X h (snd (bind_comp m f h))" for h
  proof (cases "m h")
    case (Pair r h')
    have 1: "frame X h h'" using assms(1) Pair by (auto simp: modifies_only_def dest: spec [of _ h])
    show ?thesis
    proof (cases r)
      case (Inl e)
      then show ?thesis using Pair 1 by (simp add: bind_comp_def)
    next
      case (Inr x)
      have "frame X h' (snd (f x h'))" using assms(2) by (simp add: modifies_only_def)
      then show ?thesis using Pair Inr 1 by (auto simp: bind_comp_def intro: frame_trans)
    qed
  qed
  then show ?thesis by (simp add: modifies_only_def)
qed

lemma modifies_only_get_option: "modifies_only X (get_option a)"
  by (simp add: modifies_only_def get_option_def frame_refl)

lemma modifies_only_get_result: "modifies_only X (get_result a)"
  by (simp add: modifies_only_def get_result_def frame_refl)

lemma modifies_only_get_generator: "modifies_only X (get_generator a)"
  by (simp add: modifies_only_def get_generator_def frame_refl)

lemma modifies_only_set_generator: "modifies_only X (set_generator a g)"
  by (simp add: modifies_only_def set_generator_def frame_def)

lemma modifies_only_set_option: "modifies_only (insert this X) (set_option this i)"
  by (auto simp add: modifies_only_def set_option_def frame_def)

lemma modifies_only_new_Option: "modifies_only X (new_Option i)"
  by (simp add: modifies_only_def new_Option_def frame_def)

lemma modifies_only_new_Result: "modifies_only X (new_Result i)"
  by (simp add: modifies_only_def new_Result_def frame_def)

lemma modifies_only_new_Generator: "modifies_only X (new_Generator i)"
  by (simp add: modifies_only_def new_Generator_def frame_def)

lemmas frame_intros = modifies_only_bind modifies_only_ret modifies_only_throw
  modifies_only_get_option modifies_only_get_result modifies_only_get_generator
  modifies_only_set_generator modifies_only_new_Option modifies_only_new_Result
  modifies_only_new_Generator

lemmas static_defs = Option_None_def Option_Some_def Result_Ok_def Result_Err_def

lemma frame_Option_None: "modifies_only X Option_None"
  unfolding static_defs by (intro frame_intros)
lemma frame_Option_Some: "modifies_only X (Option_Some v)"
  unfolding static_defs by (intro frame_intros)
lemma frame_Result_Ok: "modifies_only X (Result_Ok v)"
  unfolding static_defs by (intro frame_intros)
lemma frame_Result_Err: "modifies_only X (Result_Err v)"
  unfolding static_defs by (intro frame_intros)

lemma frame_Option_isNone: "modifies_only X (Option_isNone this)"
  unfolding Option_isNone_def by (intro frame_intros)
lemma frame_Option_isSome: "modifies_only X (Option_isSome this)"
  unfolding Option_isSome_def by (intro frame_intros)
lemma frame_Option_expect: "modifies_only X (Option_expect this msg)"
  unfolding Option_expect_def by (auto intro!: frame_intros)
lemma frame_Option_unwrap: "modifies_only X (Option_unwrap this)"
  unfolding Option_unwrap_def by (auto intro!: frame_intros)
lemma frame_Option_unwrapOr: "modifies_only X (Option_unwrapOr this d)"
  unfolding Option_unwrapOr_def by (auto intro!: frame_intros)
lemma frame_Option_unwrapOrElse:
  "modifies_only X g \<Longrightarrow> modifies_only X (Option_unwrapOrElse this g)"
  unfolding Option_unwrapOrElse_def by (auto intro!: frame_intros)
lemma frame_Option_unwrapOrDefault: "modifies_only X (Option_unwrapOrDefault this)"
  unfolding Option_unwrapOrDefault_def by (intro frame_intros)

lemma frame_Result_isOk: "modifies_only X (Result_isOk this)"
  unfolding Result_isOk_def by (intro frame_intros)
lemma frame_Result_isErr: "modifies_only X (Result_isErr this)"
  unfolding Result_isErr_def by (intro frame_intros)
lemma frame_Result_expect: "modifies_only X (Result_expect this msg)"
  unfolding Result_expect_def by (auto intro!: frame_intros)
lemma frame_Result_unwrap: "modifies_only X (Result_unwrap this)"
  unfolding Result_unwrap_def by (auto intro!: frame_intros)
lemma frame_Result_unwrapOr: "modifies_only X (Result_unwrapOr this d)"
  unfolding Result_unwrapOr_def by (auto intro!: frame_intros)
lemma frame_Result_unwrapOrElse:
  "(\<And>x. modifies_only X (f x)) \<Longrightarrow> modifies_only X (Result_unwrapOrElse this f)"
  unfolding Result_unwrapOrElse_def by (auto intro!: frame_intros)
lemma frame_Result_unwrapOrDefault: "modifies_only X (Result_unwrapOrDefault this)"
  unfolding Result_unwrapOrDefault_def by (intro frame_intros)
lemma frame_Result_expectErr: "modifies_only X (Result_expectErr this msg)"
  unfolding Result_expectErr_def by (auto intro!: frame_intros)
lemma frame_Result_unwrapErr: "modifies_only X (Result_unwrapErr this)"
  unfolding Result_unwrapErr_def by (auto intro!: frame_intros)

lemmas frame_called = frame_Option_None frame_Option_Some frame_Result_Ok frame_Result_Err
  frame_Option_isNone frame_Option_unwrap frame_Result_isErr frame_Result_unwrap
  frame_Result_unwrapErr

lemma frame_Result_err: "modifies_only X (Result_err this)"
  unfolding Result_err_def by (auto intro!: frame_intros frame_called)
lemma frame_Result_ok: "modifies_only X (Result_ok this)"
  unfolding Result_ok_def by (auto intro!: frame_intros frame_called)
lemma frame_Result_transpose: "modifies_only X (Result_transpose this)"
  unfolding Result_transpose_def
  by (auto intro!: frame_intros frame_called split: jsval.split)
lemma frame_Result_map:
  "(\<And>x. modifies_only X (f x)) \<Longrightarrow> modifies_only X (Result_map this f)"
  unfolding Result_map_def by (auto intro!: frame_intros)
lemma frame_Result_mapErr:
  "(\<And>x. modifies_only X (f x)) \<Longrightarrow> modifies_only X (Result_mapErr this f)"
  unfolding Result_mapErr_def by (auto intro!: frame_intros)
lemma frame_Result_mapOr:
  "(\<And>x. modifies_only X (f x)) \<Longrightarrow> modifies_only X (Result_mapOr this d f)"
  unfolding Result_mapOr_def by (auto intro!: frame_intros)
lemma frame_Result_mapOrElse:
  "(\<And>x. modifies_only X (f x)) \<Longrightarrow> (\<And>x. modifies_only X (f' x))
   \<Longrightarrow> modifies_only X (Result_mapOrElse this f f')"
  unfolding Result_mapOrElse_def by (auto intro!: frame_intros)
lemma frame_Result_and: "modifies_only X (Result_and this other)"
  unfolding Result_and_def by (auto intro!: frame_intros)
lemma frame_Result_or: "modifies_only X (Result_or this other)"
  unfolding Result_or_def by (auto intro!: frame_intros)
lemma frame_Result_andThen:
  "(\<And>x. modifies_only X (c x)) \<Longrightarrow> modifies_only X (Result_andThen this c)"
  unfolding Result_andThen_def by (auto intro!: frame_intros)
lemma frame_Result_orElse:
  "(\<And>x. modifies_only X (c x)) \<Longrightarrow> modifies_only X (Result_orElse this c)"
  unfolding Result_orElse_def by (auto intro!: frame_intros)
lemma frame_Result_intoIter: "modifies_only X (Result_intoIter this)"
  unfolding Result_intoIter_def by (intro frame_intros)

lemma frame_Option_okOr: "modifies_only X (Option_okOr this e)"
  unfolding Option_okOr_def by (auto intro!: frame_intros frame_called)
lemma frame_Option_okOrElse:
  "modifies_only X g \<Longrightarrow> modifies_only X (Option_okOrElse this g)"
  unfolding Option_okOrElse_def by (auto intro!: frame_intros frame_called)
lemma frame_Option_transpose: "modifies_only X (Option_transpose this)"
  unfolding Option_transpose_def
  by (auto intro!: frame_intros frame_called split: jsval.split)
lemma frame_Option_filter:
  "(\<And>x. modifies_only X (p x)) \<Longrightarrow> modifies_only X (Option_filter this p)"
  unfolding Option_filter_def by (auto intro!: frame_intros)
lemma frame_Option_flatten: "modifies_only X (Option_flatten this)"
  unfolding Option_flatten_def
  by (auto intro!: frame_intros frame_called split: jsval.split)
lemma frame_Option_map:
  "(\<And>x. modifies_only X (f x)) \<Longrightarrow> modifies_only X (Option_map this f)"
  unfolding Option_map_def by (auto intro!: frame_intros)
lemma frame_Option_mapOr:
  "(\<And>x. modifies_only X (f x)) \<Longrightarrow> modifies_only X (Option_mapOr this d f)"
  unfolding Option_mapOr_def by (auto intro!: frame_intros)
lemma frame_Option_mapOrElse:
  "modifies_only X g \<Longrightarrow> (\<And>x. modifies_only X (f x))
   \<Longrightarrow> modifies_only X (Option_mapOrElse this g f)"
  unfolding Option_mapOrElse_def by (auto intro!: frame_intros)
lemma frame_Option_zip: "modifies_only X (Option_zip this other)"
  unfolding Option_zip_def by (auto intro!: frame_intros frame_called)
lemma frame_Option_zipWith:
  "(\<And>x y. modifies_only X (z x y)) \<Longrightarrow> modifies_only X (Option_zipWith this other z)"
  unfolding Option_zipWith_def by (auto intro!: frame_intros frame_called)
lemma frame_Option_and: "modifies_only X (Option_and this other)"
  unfolding Option_and_def by (auto intro!: frame_intros)
lemma frame_Option_or: "modifies_only X (Option_or this other)"
  unfolding Option_or_def by (auto intro!: frame_intros)
lemma frame_Option_xor: "modifies_only X (Option_xor this other)"
  unfolding Option_xor_def by (auto intro!: frame_intros)
lemma frame_Option_andThen:
  "(\<And>x. modifies_only X (c x)) \<Longrightarrow> modifies_only X (Option_andThen this c)"
  unfolding Option_andThen_def by (auto intro!: frame_intros)
lemma frame_Option_orElse:
  "modifies_only X og \<Longrightarrow> modifies_only X (Option_orElse this og)"
  unfolding Option_orElse_def by (auto intro!: frame_intros)
lemma frame_Option_intoIter: "modifies_only X (Option_intoIter this)"
  unfolding Option_intoIter_def by (intro frame_intros)
lemma frame_Option_getOrInsertDefault: "modifies_only X (Option_getOrInsertDefault this)"
  unfolding Option_getOrInsertDefault_def by (intro frame_intros)
lemma frame_Generator_next: "modifies_only X (Generator_next g)"
  unfolding Generator_next_def
  by (auto intro!: frame_intros split: GeneratorInternal.split GeneratorState.split)

lemma frame_Option_insert: "modifies_only (insert this X) (Option_insert this v)"
  unfolding Option_insert_def by (auto intro!: frame_intros modifies_only_set_option)
lemma frame_Option_getOrInsert: "modifies_only (insert this X) (Option_getOrInsert this v)"
  unfolding Option_getOrInsert_def by (auto intro!: frame_intros modifies_only_set_option)
lemma frame_Option_getOrInsertWith:
  assumes "modifies_only X g"
  shows "modifies_only (insert this X) (Option_getOrInsertWith this g)"
proof -
  have "modifies_only (insert this X) g"
    using assms by (rule modifies_only_insert)
  then show ?thesis
    unfolding Option_getOrInsertWith_def
    by (auto intro!: frame_intros modifies_only_set_option)
qed
lemma frame_Option_take: "modifies_only (insert this X) (Option_take this)"
  unfolding Option_take_def by (auto intro!: frame_intros modifies_only_set_option)
lemma frame_Option_replace: "modifies_only (insert this X) (Option_replace this v)"
  unfolding Option_replace_def by (auto intro!: frame_intros modifies_only_set_option)

text \<open>
  C8, as stated: every operation other than the five mutators leaves the receiver's
  variant and payload unchanged. It fails when a callback passed to the operation changes
  the receiver: for \<open>o = Option.Some(1)\<close>, \<open>o.filter(v => { o.take(); return true; })\<close>
  leaves \<open>o\<close>, the receiver of \<open>filter\<close>, as \<open>None\<close>.
\<close>

theorem filter_callback_changes_receiver:
  "fst (Option_Some (js_int 1) empty_heap) = Inr 0
   \<and> is_option_of (snd (Option_Some (js_int 1) empty_heap)) 0
   \<and> options (snd (Option_Some (js_int 1) empty_heap)) 0 = SomeInternal (js_int 1)
   \<and> options
        (snd (Option_filter 0 (take_then_true 0) (snd (Option_Some (js_int 1) empty_heap)))) 0
       = NoneInternal
   \<and> \<not> frame {} (snd (Option_Some (js_int 1) empty_heap))
         (snd (Option_filter 0 (take_then_true 0) (snd (Option_Some (js_int 1) empty_heap))))"
  by (simp add: comp_defs store_defs Option_filter_def Option_take_def take_then_true_def
      is_option_of_def frame_def empty_heap_def)

text \<open>
  C8, amended: the claim holds of every operation whose callbacks change no container.
  Let \<open>X\<close> be any set of \<open>Option\<close> containers, and let every callback change no \<open>Result\<close>
  and no \<open>Option\<close> outside \<open>X\<close> (with \<open>X\<close> empty: callbacks that change no container).
  Then every constructor and every operation of both classes, other than the five
  mutators, changes no \<open>Result\<close> and no \<open>Option\<close> outside \<open>X\<close>, whether it returns or
  throws: its receiver and the containers passed to it keep their variant and payload.
  That includes \<open>intoIter\<close>, both the call, which makes the generator, and every \<open>next()\<close>
  on the generator, which runs its body. The five mutators \<open>insert\<close>, \<open>getOrInsert\<close>,
  \<open>getOrInsertWith\<close>, \<open>take\<close> and \<open>replace\<close> change no \<open>Result\<close> and no \<open>Option\<close> outside
  \<open>X\<close> other than their receiver.
\<close>

theorem operations_frame:
  fixes g :: "jsval comp" and og :: "nat comp"
    and f f' :: "jsval \<Rightarrow> jsval comp" and p :: "jsval \<Rightarrow> bool comp"
    and c :: "jsval \<Rightarrow> nat comp" and z :: "jsval \<Rightarrow> jsval \<Rightarrow> jsval comp"
  assumes "modifies_only X g" and "modifies_only X og"
    and "\<And>x. modifies_only X (f x)" and "\<And>x. modifies_only X (f' x)"
    and "\<And>x. modifies_only X (p x)" and "\<And>x. modifies_only X (c x)"
    and "\<And>x y. modifies_only X (z x y)"
  shows
   "(modifies_only X Option_None \<and> modifies_only X (Option_Some v)
     \<and> modifies_only X (Option_isNone this) \<and> modifies_only X (Option_isSome this)
     \<and> modifies_only X (Option_expect this msg) \<and> modifies_only X (Option_unwrap this)
     \<and> modifies_only X (Option_unwrapOr this v)
     \<and> modifies_only X (Option_unwrapOrElse this g)
     \<and> modifies_only X (Option_unwrapOrDefault this)
     \<and> modifies_only X (Option_okOr this v) \<and> modifies_only X (Option_okOrElse this g)
     \<and> modifies_only X (Option_transpose this) \<and> modifies_only X (Option_filter this p)
     \<and> modifies_only X (Option_flatten this) \<and> modifies_only X (Option_map this f)
     \<and> modifies_only X (Option_mapOr this v f)
     \<and> modifies_only X (Option_mapOrElse this g f)
     \<and> modifies_only X (Option_zip this other)
     \<and> modifies_only X (Option_zipWith this other z)
     \<and> modifies_only X (Option_and this other) \<and> modifies_only X (Option_or this other)
     \<and> modifies_only X (Option_xor this other)
     \<and> modifies_only X (Option_andThen this c) \<and> modifies_only X (Option_orElse this og)
     \<and> modifies_only X (Option_intoIter this)
     \<and> modifies_only X (bind_comp (Option_intoIter this) Generator_next)
     \<and> modifies_only X (Option_getOrInsertDefault this))
    \<and> (modifies_only X (Result_Ok v) \<and> modifies_only X (Result_Err v)
     \<and> modifies_only X (Result_isOk this) \<and> modifies_only X (Result_isErr this)
     \<and> modifies_only X (Result_expect this msg) \<and> modifies_only X (Result_unwrap this)
     \<and> modifies_only X (Result_unwrapOr this v)
     \<and> modifies_only X (Result_unwrapOrElse this f)
     \<and> modifies_only X (Result_unwrapOrDefault this)
     \<and> modifies_only X (Result_expectErr this msg)
     \<and> modifies_only X (Result_unwrapErr this)
     \<and> modifies_only X (Result_err this) \<and> modifies_only X (Result_ok this)
     \<and> modifies_only X (Result_transpose this) \<and> modifies_only X (Result_map this f)
     \<and> modifies_only X (Result_mapErr this f) \<and> modifies_only X (Result_mapOr this v f)
     \<and> modifies_only X (Result_mapOrElse this f' f)
     \<and> modifies_only X (Result_and this other) \<and> modifies_only X (Result_or this other)
     \<and> modifies_only X (Result_andThen this c) \<and> modifies_only X (Result_orElse this c)
     \<and> modifies_only X (Result_intoIter this)
     \<and> modifies_only X (bind_comp (Result_intoIter this) Generator_next)
     \<and> modifies_only X (Generator_next gen))
    \<and> (modifies_only (insert this X) (Option_insert this v)
     \<and> modifies_only (insert this X) (Option_getOrInsert this v)
     \<and> modifies_only (insert this X) (Option_getOrInsertWith this g)
     \<and> modifies_only (insert this X) (Option_take this)
     \<and> modifies_only (insert this X) (Option_replace this v))"
  using assms
  by (intro conjI frame_called frame_Option_isSome frame_Option_expect
      frame_Option_unwrapOr frame_Option_unwrapOrElse frame_Option_unwrapOrDefault
      frame_Option_okOr frame_Option_okOrElse frame_Option_transpose frame_Option_filter
      frame_Option_flatten frame_Option_map frame_Option_mapOr frame_Option_mapOrElse
      frame_Option_zip frame_Option_zipWith frame_Option_and frame_Option_or frame_Option_xor
      frame_Option_andThen frame_Option_orElse frame_Option_intoIter
      frame_Option_getOrInsertDefault frame_Result_isOk frame_Result_expect
      frame_Result_unwrapOr frame_Result_unwrapOrElse frame_Result_unwrapOrDefault
      frame_Result_expectErr frame_Result_err frame_Result_ok frame_Result_transpose
      frame_Result_map frame_Result_mapErr frame_Result_mapOr frame_Result_mapOrElse
      frame_Result_and frame_Result_or frame_Result_andThen frame_Result_orElse
      frame_Result_intoIter frame_Option_insert frame_Option_getOrInsert
      frame_Option_getOrInsertWith frame_Option_take frame_Option_replace
      modifies_only_bind frame_Generator_next)

text \<open>
  The amended C8 on the example store, with callbacks that only return: \<open>zip\<close> leaves both
  its receiver and its argument as they were, \<open>replace\<close> on the container at address 0
  leaves the one at address 1 alone, and \<open>Result.map\<close> leaves its receiver an \<open>Err("e")\<close>.
\<close>

theorem operations_frame_witness:
  "options (snd (Option_zip 0 1 example_heap)) 0 = SomeInternal (js_int 1)
   \<and> options (snd (Option_zip 0 1 example_heap)) 1 = SomeInternal (js_int 2)
   \<and> options (snd (Option_replace 0 (js_int 9) example_heap)) 1 = SomeInternal (js_int 2)
   \<and> results (snd (Result_map 0 ret example_heap)) 0 = ErrInternal (JStr ''e'')
   \<and> options (snd (Option_filter 0 (\<lambda>x. ret True) example_heap)) 0 = SomeInternal (js_int 1)
   \<and> options (snd (bind_comp (Option_intoIter 0) Generator_next example_heap)) 0
       = SomeInternal (js_int 1)"
proof -
  note fr = operations_frame [where X = "{}" and g = "ret JNull" and og = "ret 0"
      and f = ret and f' = ret and p = "\<lambda>x. ret True" and c = "\<lambda>x. ret 0"
      and z = "\<lambda>x y. ret x" and this = 0 and other = 1 and v = "js_int 9",
      OF modifies_only_ret modifies_only_ret modifies_only_ret modifies_only_ret
      modifies_only_ret modifies_only_ret modifies_only_ret]
  from fr have 1: "modifies_only {} (Option_zip 0 1)"
    and 2: "modifies_only {0} (Option_replace 0 (js_int 9))"
    and 3: "modifies_only {} (Result_map 0 ret)"
    and 4: "modifies_only {} (Option_filter 0 (\<lambda>x. ret True))"
    and 5: "modifies_only {} (bind_comp (Option_intoIter 0) Generator_next)"
    by blast+
  have "frame {} example_heap (snd (Option_zip 0 1 example_heap))"
    and "frame {0} example_heap (snd (Option_replace 0 (js_int 9) example_heap))"
    and "frame {} example_heap (snd (Result_map 0 ret example_heap))"
    and "frame {} example_heap (snd (Option_filter 0 (\<lambda>x. ret True) example_heap))"
    and "frame {} example_heap
           (snd (bind_comp (Option_intoIter 0) Generator_next example_heap))"
    using 1 2 3 4 5 by (simp_all add: modifies_only_def)
  then show ?thesis
    by (simp add: frame_def example_heap_simps)
qed

end
